theory Spec2Isabelle
  imports Main "HOL-Library.Sublist" "HOL-Library.Word"
begin

section \<open>The stack and the WebUI construct\<close>

text \<open>
  The deployed program is a CDK application: \<^verbatim>\<open>bin/aws-web-ui.ts\<close> instantiates the stack
  \<^verbatim>\<open>NerdiylandWebUi\<close> (lib/nerdiyland-web-ui-stack.ts), whose constructor instantiates the
  construct \<^verbatim>\<open>WebUI\<close> (lib/web-ui.ts). The constructors only build a configuration value,
  so each is modelled as a function from its props to the value it builds. An optional
  property (\<^verbatim>\<open>name?: T\<close>) is an \<open>option\<close>, \<open>None\<close> standing for \<^verbatim>\<open>undefined\<close>.
\<close>

record NerdiylandWebUiProps =
  certificateArn :: string
  deliveryAliases :: "string list option"
  viewersPublicKeyId :: string
  loginBucketName :: string
  originAccessIdentityName :: string
  originAccessIdentityCanonicalUserId :: string

record WebUIProps =
  deploymentName :: "string option"
  aliases :: "string list option"
  acmCertificateArn :: "string option"
  viewersPublicKeyId :: string
  loginBucketName :: string
  OriginAccessIdentityName :: string
  OriginAccessIdentityCanonicalUserId :: string
  AppsLoginUrl :: "string option"

subsection \<open>Values of the CDK library that the construct builds\<close>

text \<open>
  \<^verbatim>\<open>Duration\<close> is kept as a number of seconds; the four factory functions are the unit
  conversions of the CDK.
\<close>

type_synonym Duration = int

definition Duration_seconds :: "int \<Rightarrow> Duration" where
  "Duration_seconds n = n"

definition Duration_minutes :: "int \<Rightarrow> Duration" where
  "Duration_minutes n = 60 * n"

definition Duration_hours :: "int \<Rightarrow> Duration" where
  "Duration_hours n = 3600 * n"

definition Duration_days :: "int \<Rightarrow> Duration" where
  "Duration_days n = 86400 * n"

record CachePolicy =
  policyId :: string
  minTtl :: Duration
  defaultTtl :: Duration
  maxTtl :: Duration

datatype BucketRef = WebsiteBucket | FromBucketName string

datatype ResourceRef = BucketArn BucketRef | ArnForObjects BucketRef string

record PolicyStatement =
  principals :: "string list"
  actions :: "string list"
  resources :: "ResourceRef list"

datatype RemovalPolicy = DESTROY | RETAIN

record Bucket =
  removalPolicy :: RemovalPolicy
  resourcePolicy :: "PolicyStatement list"

record KeyGroup =
  items :: "string list"

record S3BucketOrigin =
  bucket :: BucketRef
  originAccessIdentity :: string

datatype ViewerProtocolPolicy = REDIRECT_TO_HTTPS | HTTPS_ONLY | ALLOW_ALL

datatype PriceClass = PRICE_CLASS_100 | PRICE_CLASS_200 | PRICE_CLASS_ALL

record BehaviorOptions =
  origin :: S3BucketOrigin
  cachePolicy :: CachePolicy
  viewerProtocolPolicy :: ViewerProtocolPolicy
  trustedKeyGroups :: "KeyGroup list option"

record ErrorResponse =
  httpStatus :: int
  responseHttpStatus :: int
  responsePagePath :: string

text \<open>
  \<^verbatim>\<open>additionalBehaviors\<close> is an object literal with string keys; its entries are kept in
  the order in which the source writes them, which is the order in which the distribution
  lists its cache behaviors. It is therefore an association list.
\<close>

record Distribution =
  certificate :: "string option"
  defaultRootObject :: string
  domainNames :: "string list option"
  defaultBehavior :: BehaviorOptions
  additionalBehaviors :: "(string \<times> BehaviorOptions) list"
  priceClass :: PriceClass
  errorResponses :: "ErrorResponse list"

datatype OutputValue = BucketName_of_WebsiteBucket | DomainName_of_WebsiteDistribution

record WebUI =
  websiteBucket :: Bucket
  websiteDistribution :: Distribution
  trustedKeyGroup :: KeyGroup
  outputs :: "(string \<times> OutputValue) list"

subsection \<open>The constructor of WebUI\<close>

text \<open>
  JavaScript truthiness of an optional string, as \<^verbatim>\<open>!!props.AppsLoginUrl\<close> computes it:
  \<^verbatim>\<open>undefined\<close> and the empty string are falsy, every other string is truthy.
\<close>

definition truthy :: "string option \<Rightarrow> bool" where
  "truthy v = (case v of None \<Rightarrow> False | Some s \<Rightarrow> s \<noteq> [])"

definition defaultCachePolicy :: CachePolicy where
  "defaultCachePolicy =
     \<lparr>policyId = ''DefaultCachePolicy'',
      minTtl = Duration_seconds 0,
      defaultTtl = Duration_minutes 5,
      maxTtl = Duration_hours 24\<rparr>"

definition longStorageCachePolicy :: CachePolicy where
  "longStorageCachePolicy =
     \<lparr>policyId = ''LongStorageCachePolicy'',
      minTtl = Duration_days 365,
      defaultTtl = Duration_days 720,
      maxTtl = Duration_days 3650\<rparr>"

definition mkTrustedKeyGroup :: "WebUIProps \<Rightarrow> KeyGroup" where
  "mkTrustedKeyGroup props = \<lparr>items = [WebUIProps.viewersPublicKeyId props]\<rparr>"

definition defaultOrigin :: "WebUIProps \<Rightarrow> S3BucketOrigin" where
  "defaultOrigin props =
     \<lparr>bucket = WebsiteBucket, originAccessIdentity = OriginAccessIdentityName props\<rparr>"

definition loginOrigin :: "WebUIProps \<Rightarrow> S3BucketOrigin" where
  "loginOrigin props =
     \<lparr>bucket = FromBucketName (WebUIProps.loginBucketName props),
      originAccessIdentity = OriginAccessIdentityName props\<rparr>"

definition mkWebsiteBucket :: "WebUIProps \<Rightarrow> Bucket" where
  "mkWebsiteBucket props =
     \<lparr>removalPolicy = DESTROY,
      resourcePolicy =
        [\<lparr>principals = [OriginAccessIdentityCanonicalUserId props],
          actions = [''s3:GetObject'', ''s3:ListBucket''],
          resources = [BucketArn WebsiteBucket, ArnForObjects WebsiteBucket ''*'']\<rparr>]\<rparr>"

definition mkAdditionalBehaviors :: "WebUIProps \<Rightarrow> (string \<times> BehaviorOptions) list" where
  "mkAdditionalBehaviors props =
    [(''/login.html'',
        \<lparr>origin = loginOrigin props, cachePolicy = defaultCachePolicy,
         viewerProtocolPolicy = REDIRECT_TO_HTTPS, trustedKeyGroups = None\<rparr>),
     (''/apps-login.html'',
        \<lparr>origin = loginOrigin props, cachePolicy = defaultCachePolicy,
         viewerProtocolPolicy = HTTPS_ONLY, trustedKeyGroups = None\<rparr>),
     (''/eth-login.html'',
        \<lparr>origin = loginOrigin props, cachePolicy = defaultCachePolicy,
         viewerProtocolPolicy = HTTPS_ONLY, trustedKeyGroups = None\<rparr>),
     (''/idpresponse.html'',
        \<lparr>origin = loginOrigin props, cachePolicy = defaultCachePolicy,
         viewerProtocolPolicy = HTTPS_ONLY, trustedKeyGroups = None\<rparr>),
     (''/apps-idpresponse.html'',
        \<lparr>origin = loginOrigin props, cachePolicy = defaultCachePolicy,
         viewerProtocolPolicy = HTTPS_ONLY, trustedKeyGroups = None\<rparr>),
     (''/favicon.png'',
        \<lparr>origin = defaultOrigin props, cachePolicy = defaultCachePolicy,
         viewerProtocolPolicy = REDIRECT_TO_HTTPS, trustedKeyGroups = None\<rparr>),
     (''/logo.png'',
        \<lparr>origin = defaultOrigin props, cachePolicy = defaultCachePolicy,
         viewerProtocolPolicy = REDIRECT_TO_HTTPS, trustedKeyGroups = None\<rparr>),
     (''/css/*'',
        \<lparr>origin = defaultOrigin props, cachePolicy = longStorageCachePolicy,
         viewerProtocolPolicy = HTTPS_ONLY,
         trustedKeyGroups = Some [mkTrustedKeyGroup props]\<rparr>),
     (''/css/chunk-vendors*'',
        \<lparr>origin = defaultOrigin props, cachePolicy = longStorageCachePolicy,
         viewerProtocolPolicy = HTTPS_ONLY, trustedKeyGroups = None\<rparr>),
     (''/js/*'',
        \<lparr>origin = defaultOrigin props, cachePolicy = longStorageCachePolicy,
         viewerProtocolPolicy = HTTPS_ONLY,
         trustedKeyGroups = Some [mkTrustedKeyGroup props]\<rparr>),
     (''/js/chunk-vendors*'',
        \<lparr>origin = defaultOrigin props, cachePolicy = longStorageCachePolicy,
         viewerProtocolPolicy = HTTPS_ONLY, trustedKeyGroups = None\<rparr>),
     (''/assets/*'',
        \<lparr>origin = defaultOrigin props, cachePolicy = longStorageCachePolicy,
         viewerProtocolPolicy = HTTPS_ONLY,
         trustedKeyGroups = Some [mkTrustedKeyGroup props]\<rparr>)]"

definition mkErrorResponses :: "WebUIProps \<Rightarrow> ErrorResponse list" where
  "mkErrorResponses props =
    [\<lparr>httpStatus = 404, responseHttpStatus = 200, responsePagePath = ''/''\<rparr>,
     \<lparr>httpStatus = 403, responseHttpStatus = 200,
      responsePagePath =
        (if truthy (AppsLoginUrl props) then ''/apps-login.html'' else ''/login.html'')\<rparr>]"

definition mkWebsiteDistribution :: "WebUIProps \<Rightarrow> Distribution" where
  "mkWebsiteDistribution props =
     \<lparr>certificate = acmCertificateArn props,
      defaultRootObject = ''index.html'',
      domainNames = aliases props,
      defaultBehavior =
        \<lparr>origin = defaultOrigin props, cachePolicy = defaultCachePolicy,
         viewerProtocolPolicy = REDIRECT_TO_HTTPS,
         trustedKeyGroups = Some [mkTrustedKeyGroup props]\<rparr>,
      additionalBehaviors = mkAdditionalBehaviors props,
      priceClass = PRICE_CLASS_100,
      errorResponses = mkErrorResponses props\<rparr>"

definition new_WebUI :: "WebUIProps \<Rightarrow> WebUI" where
  "new_WebUI props =
     \<lparr>websiteBucket = mkWebsiteBucket props,
      websiteDistribution = mkWebsiteDistribution props,
      trustedKeyGroup = mkTrustedKeyGroup props,
      outputs =
        [(''WebUIBucketName'', BucketName_of_WebsiteBucket),
         (''WebUIDomainName'', DomainName_of_WebsiteDistribution)]\<rparr>"

subsection \<open>The stack and the application\<close>

text \<open>
  The stack passes six of the construct's properties on and leaves \<^verbatim>\<open>deploymentName\<close>
  and \<^verbatim>\<open>AppsLoginUrl\<close> undefined; the application instantiates the stack with empty
  strings.
\<close>

definition stackProps :: "NerdiylandWebUiProps \<Rightarrow> WebUIProps" where
  "stackProps props =
     \<lparr>deploymentName = None,
      aliases = deliveryAliases props,
      acmCertificateArn = Some (certificateArn props),
      viewersPublicKeyId = NerdiylandWebUiProps.viewersPublicKeyId props,
      loginBucketName = NerdiylandWebUiProps.loginBucketName props,
      OriginAccessIdentityName = originAccessIdentityName props,
      OriginAccessIdentityCanonicalUserId = originAccessIdentityCanonicalUserId props,
      AppsLoginUrl = None\<rparr>"

definition new_NerdiylandWebUi :: "NerdiylandWebUiProps \<Rightarrow> WebUI" where
  "new_NerdiylandWebUi props = new_WebUI (stackProps props)"

definition appProps :: NerdiylandWebUiProps where
  "appProps =
     \<lparr>certificateArn = [],
      deliveryAliases = None,
      viewersPublicKeyId = [],
      loginBucketName = [],
      originAccessIdentityName = [],
      originAccessIdentityCanonicalUserId = []\<rparr>"

definition app :: WebUI where
  "app = new_NerdiylandWebUi appProps"

section \<open>Resolution of a request path and mapping of an origin status\<close>

text \<open>
  The construct only declares the behaviors and the error responses; choosing the behavior
  for a request and replacing an error status is done by the distribution that consumes
  the declaration. That part is not in the repository and is taken from the
  specification.
\<close>

text \<open>
  Modelled from the spec: the resolver (BehaviorResolver, section 4.2), which the
  repository does not contain. Step 1 normalises the path: the query string and the
  fragment are dropped and a leading slash is ensured.
\<close>

definition normalize :: "string \<Rightarrow> string" where
  "normalize path =
     (let p = takeWhile (\<lambda>c. c \<noteq> CHR ''?'' \<and> c \<noteq> CHR ''#'') path
      in case p of
           [] \<Rightarrow> ''/''
         | c # cs \<Rightarrow> (if c = CHR ''/'' then p else CHR ''/'' # p))"

text \<open>
  Modelled from the spec: step 2 of the resolver tests a pattern against a path,
  ``exact-match if pattern has no trailing \<open>*\<close>, else prefix-match against the
  pattern's literal prefix''.
\<close>

definition matches :: "string \<Rightarrow> string \<Rightarrow> bool" where
  "matches pat path =
     (if pat \<noteq> [] \<and> last pat = CHR ''*'' then prefix (butlast pat) path
      else pat = path)"

text \<open>
  Modelled from the spec: steps 2 and 3 of the resolver, ``scan behaviors in declaration
  order'' and ``return the first match. If none match, return the default behavior''.
  The result carries the pattern of the rule that was chosen, \<open>None\<close> for the default.
\<close>

definition Resolve :: "Distribution \<Rightarrow> string \<Rightarrow> string option \<times> BehaviorOptions" where
  "Resolve d path =
     (case find (\<lambda>(pat, b). matches pat (normalize path)) (additionalBehaviors d) of
        Some (pat, b) \<Rightarrow> (Some pat, b)
      | None \<Rightarrow> (None, defaultBehavior d))"

text \<open>
  A behavior requires a signed token exactly when it names at least one trusted key group
  (\<^verbatim>\<open>trustedKeyGroups\<close> present and not empty).
\<close>

definition requireSignedToken :: "BehaviorOptions \<Rightarrow> bool" where
  "requireSignedToken b =
     (case trustedKeyGroups b of None \<Rightarrow> False | Some gs \<Rightarrow> gs \<noteq> [])"

text \<open>
  Modelled from the spec: the error-response mapper (ErrorResponseMapper, section 4.4),
  which the repository does not contain. An origin status for which the distribution
  declares an error response is replaced by the declared status and page; ``any other
  status passes through unchanged'', which is the result \<open>(status, None)\<close>: no page is
  substituted.
\<close>

definition Map_status :: "Distribution \<Rightarrow> int \<Rightarrow> int \<times> string option" where
  "Map_status d originStatus =
     (case find (\<lambda>r. httpStatus r = originStatus) (errorResponses d) of
        Some r \<Rightarrow> (responseHttpStatus r, Some (responsePagePath r))
      | None \<Rightarrow> (originStatus, None))"

section \<open>The signed-URL generator\<close>

text \<open>
  \<^verbatim>\<open>SignedURLGenerator\<close> (utils/signed-url-generator.ts, shown in docs/EXAMPLES.md) issues
  the signed URLs. What it computes depends on the code units of JavaScript strings (the
  regular expression \<^verbatim>\<open>\s\<close>, the escapes of \<^verbatim>\<open>JSON.stringify\<close>, the UTF-8 bytes that
  are signed), so a JavaScript string is a list of 16-bit code units and a buffer is a
  list of bytes. A JavaScript number is an \<open>int\<close>: the model covers the integers that a
  double holds exactly, on which \<^verbatim>\<open>+\<close> and \<^verbatim>\<open>Math.floor\<close> are exact and the
  number prints in plain decimal notation.
\<close>

type_synonym jsstring = "16 word list"

type_synonym byte = "8 word"

definition js :: "string \<Rightarrow> jsstring" where
  "js s = map of_char s"

subsection \<open>JSON.stringify\<close>

datatype json =
    JString jsstring
  | JNumber int
  | JArray "json list"
  | JObject "(jsstring \<times> json) list"

definition is_leading_surrogate :: "16 word \<Rightarrow> bool" where
  "is_leading_surrogate c = (0xD800 \<le> c \<and> c \<le> 0xDBFF)"

definition is_trailing_surrogate :: "16 word \<Rightarrow> bool" where
  "is_trailing_surrogate c = (0xDC00 \<le> c \<and> c \<le> 0xDFFF)"

definition hex_digit :: "nat \<Rightarrow> 16 word" where
  "hex_digit n = (if n < 10 then 0x30 + of_nat n else 0x61 + of_nat (n - 10))"

text \<open>\<^verbatim>\<open>UnicodeEscape\<close>: a backslash, \<^verbatim>\<open>u\<close> and four lowercase hexadecimal digits.\<close>

definition UnicodeEscape :: "16 word \<Rightarrow> jsstring" where
  "UnicodeEscape c =
     [0x5C, 0x75, hex_digit (unat c div 4096), hex_digit (unat c div 256 mod 16),
      hex_digit (unat c div 16 mod 16), hex_digit (unat c mod 16)]"

text \<open>
  The body of \<^verbatim>\<open>QuoteJSONString\<close>, code point by code point: backspace, tab, line feed,
  form feed, carriage return, the double quote and the backslash have two-character
  escapes; any other unit below \<open>0x20\<close> and any surrogate that is not part of a pair is
  written as a \<^verbatim>\<open>\u\<close> escape; everything else, a surrogate pair included, is copied.
\<close>

fun quote_units :: "jsstring \<Rightarrow> jsstring" where
  "quote_units [] = []"
| "quote_units (c # cs) =
     (if c = 0x08 then 0x5C # 0x62 # quote_units cs
      else if c = 0x09 then 0x5C # 0x74 # quote_units cs
      else if c = 0x0A then 0x5C # 0x6E # quote_units cs
      else if c = 0x0C then 0x5C # 0x66 # quote_units cs
      else if c = 0x0D then 0x5C # 0x72 # quote_units cs
      else if c = 0x22 then 0x5C # 0x22 # quote_units cs
      else if c = 0x5C then 0x5C # 0x5C # quote_units cs
      else if c < 0x20 then UnicodeEscape c @ quote_units cs
      else if is_leading_surrogate c then
        (case cs of
           [] \<Rightarrow> UnicodeEscape c
         | d # ds \<Rightarrow>
             (if is_trailing_surrogate d then c # d # quote_units ds
              else UnicodeEscape c @ quote_units cs))
      else if is_trailing_surrogate c then UnicodeEscape c @ quote_units cs
      else c # quote_units cs)"

definition QuoteJSONString :: "jsstring \<Rightarrow> jsstring" where
  "QuoteJSONString s = 0x22 # quote_units s @ [0x22]"

text \<open>
  \<^verbatim>\<open>Number.isSafeInteger\<close>: the integers of magnitude at most \<open>2^53 - 1\<close>, on which a
  double is the integer that it stands for.
\<close>

definition safe_integer :: "int \<Rightarrow> bool" where
  "safe_integer n = (\<bar>n\<bar> \<le> 9007199254740991)"

text \<open>
  \<^verbatim>\<open>Number::toString\<close> of an integer: its decimal digits, after a minus sign where it
  is negative. This is what JavaScript prints for a safe integer. Above \<open>2^53\<close> a double
  rounds the integer, and from \<open>10^21\<close> JavaScript prints an exponent; \<open>Number_toString\<close>
  does not describe that, and the statements about the digits of the policy document
  assume \<open>safe_integer\<close>.
\<close>

fun digits :: "nat \<Rightarrow> jsstring" where
  "digits n =
     (if n < 10 then [0x30 + of_nat n]
      else digits (n div 10) @ [0x30 + of_nat (n mod 10)])"

declare digits.simps [simp del]

definition Number_toString :: "int \<Rightarrow> jsstring" where
  "Number_toString n = (if n < 0 then 0x2D # digits (nat (- n)) else digits (nat n))"

fun commas :: "jsstring list \<Rightarrow> jsstring" where
  "commas [] = []"
| "commas [x] = x"
| "commas (x # y # ys) = x @ 0x2C # commas (y # ys)"

text \<open>\<^verbatim>\<open>JSON.stringify(value)\<close> without an indent: no white space between the tokens.\<close>

fun stringify :: "json \<Rightarrow> jsstring" where
  "stringify (JString s) = QuoteJSONString s"
| "stringify (JNumber n) = Number_toString n"
| "stringify (JArray xs) = 0x5B # commas (map stringify xs) @ [0x5D]"
| "stringify (JObject kvs) =
     0x7B # commas (map (\<lambda>kv. QuoteJSONString (fst kv) @ 0x3A # stringify (snd kv)) kvs)
       @ [0x7D]"

subsection \<open>Regular expressions, buffers and Base64\<close>

text \<open>
  The units that \<^verbatim>\<open>\s\<close> matches: the white space and the line terminators of
  ECMAScript.
\<close>

definition is_js_whitespace :: "16 word \<Rightarrow> bool" where
  "is_js_whitespace c =
     (c = 0x09 \<or> c = 0x0A \<or> c = 0x0B \<or> c = 0x0C \<or> c = 0x0D \<or> c = 0x20 \<or> c = 0xA0
      \<or> c = 0x1680 \<or> (0x2000 \<le> c \<and> c \<le> 0x200A) \<or> c = 0x2028 \<or> c = 0x2029
      \<or> c = 0x202F \<or> c = 0x205F \<or> c = 0x3000 \<or> c = 0xFEFF)"

text \<open>\<^verbatim>\<open>s.replace(/\s/g, '')\<close>.\<close>

definition remove_whitespace :: "jsstring \<Rightarrow> jsstring" where
  "remove_whitespace s = filter (\<lambda>c. \<not> is_js_whitespace c) s"

text \<open>\<^verbatim>\<open>s.replace(/x/g, r)\<close> for a pattern that is the single unit \<open>x\<close>.\<close>

definition replace_unit :: "16 word \<Rightarrow> jsstring \<Rightarrow> jsstring \<Rightarrow> jsstring" where
  "replace_unit x r s = concat (map (\<lambda>c. if c = x then r else [c]) s)"

text \<open>
  \<^verbatim>\<open>Buffer.from(s)\<close> and \<^verbatim>\<open>update(s)\<close> take the UTF-8 encoding of the string: one to
  three bytes for a unit outside the surrogate range, four bytes for a surrogate pair,
  and the encoding of U+FFFD for a surrogate that is not part of a pair.
\<close>

fun utf8 :: "jsstring \<Rightarrow> byte list" where
  "utf8 [] = []"
| "utf8 (c # cs) =
     (if c < 0x80 then of_nat (unat c) # utf8 cs
      else if c < 0x800 then
        of_nat (0xC0 + unat c div 0x40) # of_nat (0x80 + unat c mod 0x40) # utf8 cs
      else if is_leading_surrogate c then
        (case cs of
           [] \<Rightarrow> [0xEF, 0xBF, 0xBD]
         | d # ds \<Rightarrow>
             (if is_trailing_surrogate d then
                (let cp = 0x10000 + (unat c - 0xD800) * 0x400 + (unat d - 0xDC00) in
                 of_nat (0xF0 + cp div 0x40000) # of_nat (0x80 + cp div 0x1000 mod 0x40) #
                 of_nat (0x80 + cp div 0x40 mod 0x40) # of_nat (0x80 + cp mod 0x40) #
                 utf8 ds)
              else 0xEF # 0xBF # 0xBD # utf8 cs))
      else if is_trailing_surrogate c then 0xEF # 0xBF # 0xBD # utf8 cs
      else
        of_nat (0xE0 + unat c div 0x1000) # of_nat (0x80 + unat c div 0x40 mod 0x40) #
        of_nat (0x80 + unat c mod 0x40) # utf8 cs)"

text \<open>The bytes of an ASCII literal.\<close>

definition ascii :: "string \<Rightarrow> byte list" where
  "ascii s = map of_char s"

definition base64_chars :: jsstring where
  "base64_chars = js ''ABCDEFGHIJKLMNOPQRSTUVWXYZabcdefghijklmnopqrstuvwxyz0123456789+/''"

definition base64url_chars :: jsstring where
  "base64url_chars = js ''ABCDEFGHIJKLMNOPQRSTUVWXYZabcdefghijklmnopqrstuvwxyz0123456789-_''"

text \<open>
  Base64 (RFC 4648) over an alphabet of 64 characters: three bytes give four characters;
  a last group of one or two bytes gives two or three characters, followed by \<^verbatim>\<open>=\<close>
  up to four when padding is asked for.
\<close>

fun encode64 :: "jsstring \<Rightarrow> bool \<Rightarrow> byte list \<Rightarrow> jsstring" where
  "encode64 abc pad [] = []"
| "encode64 abc pad [a] =
     (let n = unat a * 65536 in
      [abc ! (n div 262144), abc ! (n div 4096 mod 64)] @ (if pad then [0x3D, 0x3D] else []))"
| "encode64 abc pad [a, b] =
     (let n = unat a * 65536 + unat b * 256 in
      [abc ! (n div 262144), abc ! (n div 4096 mod 64), abc ! (n div 64 mod 64)]
        @ (if pad then [0x3D] else []))"
| "encode64 abc pad (a # b # c # bs) =
     (let n = unat a * 65536 + unat b * 256 + unat c in
      [abc ! (n div 262144), abc ! (n div 4096 mod 64), abc ! (n div 64 mod 64),
       abc ! (n mod 64)] @ encode64 abc pad bs)"

text \<open>\<^verbatim>\<open>buffer.toString('base64')\<close> and the \<^verbatim>\<open>'base64'\<close> output of \<^verbatim>\<open>sign\<close>.\<close>

definition toString_base64 :: "byte list \<Rightarrow> jsstring" where
  "toString_base64 bs = encode64 base64_chars True bs"

text \<open>
  The encoding that the specification names: Base64 with the URL-safe alphabet of
  RFC 4648 and no padding.
\<close>

definition base64url_nopad :: "byte list \<Rightarrow> jsstring" where
  "base64url_nopad bs = encode64 base64url_chars False bs"

subsection \<open>generateSignedURL\<close>

text \<open>
  The generator holds the private key that its constructor read and the identifier of
  the public key. \<^verbatim>\<open>crypto.createSign('RSA-SHA1')\<close> belongs to the platform and is a
  parameter \<open>RSA_SHA1_sign\<close> of the model: from the key and the bytes to sign it gives the raw
  signature, or \<open>None\<close> where the platform throws (a key that cannot be used).
  \<^verbatim>\<open>Date.now()\<close> is the parameter \<open>now\<close>, in milliseconds.

  \<open>CryptoError\<close> is the one failure the source can have. \<open>InvalidTTL\<close> is the failure that
  the specification names for a lifetime that is not positive; no statement of the source
  raises it.
\<close>

datatype error = InvalidTTL | CryptoError

record SignedURLGenerator =
  privateKey :: jsstring
  publicKeyId :: jsstring

definition policy :: "jsstring \<Rightarrow> int \<Rightarrow> json" where
  "policy url expires =
     JObject [(js ''Statement'',
       JArray [JObject
         [(js ''Resource'', JString url),
          (js ''Condition'',
             JObject [(js ''DateLessThan'',
               JObject [(js ''AWS:EpochTime'', JNumber expires)])])]])]"

definition policyString :: "jsstring \<Rightarrow> int \<Rightarrow> jsstring" where
  "policyString url expires = remove_whitespace (stringify (policy url expires))"

definition url_safe :: "jsstring \<Rightarrow> jsstring" where
  "url_safe s = replace_unit 0x3D [] (replace_unit 0x2F [0x5F] (replace_unit 0x2B [0x2D] s))"

text \<open>
  The numbers of \<^verbatim>\<open>generateSignedURL\<close> are doubles, and the model has integers in their
  place. \<open>exact_expiry\<close> says that the time, the lifetime and the expiry are safe
  integers: then \<^verbatim>\<open>Math.floor(Date.now() / 1000)\<close> is \<open>now div 1000\<close>, the addition of the
  source is the addition of integers, and \<^verbatim>\<open>JSON.stringify\<close> prints the digits of
  \<open>Number_toString\<close>. Where it does not hold (a lifetime with a fraction, \<^verbatim>\<open>NaN\<close>, a
  magnitude above \<open>2^53\<close>) the source rounds or prints another notation, the model does
  not describe it, and the statements about the expiry assume \<open>exact_expiry\<close>.
\<close>

definition exact_expiry :: "int \<Rightarrow> int \<Rightarrow> bool" where
  "exact_expiry now expiresIn =
     (safe_integer now \<and> safe_integer expiresIn \<and> safe_integer (now div 1000 + expiresIn))"

definition generateSignedURL ::
  "(jsstring \<Rightarrow> byte list \<Rightarrow> byte list option) \<Rightarrow> SignedURLGenerator \<Rightarrow> int \<Rightarrow>
   jsstring \<Rightarrow> int option \<Rightarrow> error + jsstring" where
  "generateSignedURL RSA_SHA1_sign this now url expiresIn_arg =
     (let expiresIn = (case expiresIn_arg of None \<Rightarrow> 3600 | Some n \<Rightarrow> n);
          expires = now div 1000 + expiresIn;
          policyBase64 = url_safe (toString_base64 (utf8 (policyString url expires)))
      in case RSA_SHA1_sign (privateKey this) (utf8 (policyString url expires)) of
           None \<Rightarrow> Inl CryptoError
         | Some raw \<Rightarrow>
             (let signature = url_safe (toString_base64 raw)
              in Inr (url @ js ''?Policy='' @ policyBase64 @ js ''&Signature='' @ signature
                        @ js ''&Key-Pair-Id='' @ publicKeyId this)))"

text \<open>
  Closed examples need a signing primitive that can be evaluated. \<open>checksum_sign\<close> has the
  type of the primitive and is not RSA: the signature is the byte sums of the key and of
  the message. \<open>checksum_verify\<close> accepts exactly the signatures that \<open>checksum_sign\<close>
  makes with the same key. The general statements below hold for every primitive.
\<close>

definition checksum_sign :: "jsstring \<Rightarrow> byte list \<Rightarrow> byte list option" where
  "checksum_sign key msg = Some [sum_list (utf8 key), sum_list msg]"


definition signer :: SignedURLGenerator where
  "signer = \<lparr>privateKey = js ''private-key.pem'', publicKeyId = js ''K2EXAMPLE123456''\<rparr>"

text \<open>
  The strings on which the policy document is the plain substitution of the URL: no unit
  that \<^verbatim>\<open>JSON.stringify\<close> escapes (a unit below \<open>0x20\<close>, the double quote, the
  backslash, a surrogate outside a pair) and no unit that \<^verbatim>\<open>\s\<close> matches.
\<close>

fun plain :: "jsstring \<Rightarrow> bool" where
  "plain [] = True"
| "plain (c # cs) =
     (0x20 \<le> c \<and> c \<noteq> 0x22 \<and> c \<noteq> 0x5C \<and> \<not> is_js_whitespace c \<and>
      (if is_leading_surrogate c then
         (case cs of [] \<Rightarrow> False | d # ds \<Rightarrow> is_trailing_surrogate d \<and> plain ds)
       else \<not> is_trailing_surrogate c \<and> plain cs))"

section \<open>Tokens and their verification\<close>

text \<open>
  The wire form of a token (spec section 4.3, Issuance, step 4, and section 6) is the
  triple of the encoded policy, the encoded signature and the key identifier.
  \<open>signedURL\<close> is the template literal that \<^verbatim>\<open>generateSignedURL\<close> returns: the resource
  URL followed by the triple as the query parameters \<^verbatim>\<open>Policy\<close>, \<^verbatim>\<open>Signature\<close> and
  \<^verbatim>\<open>Key-Pair-Id\<close>.
\<close>

type_synonym wire_token = "jsstring \<times> jsstring \<times> jsstring"

definition signedURL :: "jsstring \<Rightarrow> wire_token \<Rightarrow> jsstring" where
  "signedURL url token =
     (case token of
        (policyBase64, signature, keyPairId) \<Rightarrow>
          url @ js ''?Policy='' @ policyBase64 @ js ''&Signature='' @ signature
            @ js ''&Key-Pair-Id='' @ keyPairId)"

subsection \<open>Decoding the wire form\<close>







definition hex_value :: "16 word \<Rightarrow> nat option" where
  "hex_value c =
     (if 0x30 \<le> c \<and> c \<le> 0x39 then Some (unat c - 0x30)
      else if 0x61 \<le> c \<and> c \<le> 0x66 then Some (unat c - 0x57)
      else if 0x41 \<le> c \<and> c \<le> 0x46 then Some (unat c - 0x37)
      else None)"

definition hex4 :: "16 word \<Rightarrow> 16 word \<Rightarrow> 16 word \<Rightarrow> 16 word \<Rightarrow> 16 word option" where
  "hex4 a b c d =
     (case hex_value a of None \<Rightarrow> None | Some w \<Rightarrow>
      case hex_value b of None \<Rightarrow> None | Some x \<Rightarrow>
      case hex_value c of None \<Rightarrow> None | Some y \<Rightarrow>
      case hex_value d of None \<Rightarrow> None | Some z \<Rightarrow>
        Some (of_nat (w * 4096 + x * 256 + y * 16 + z)))"

text \<open>The character that a backslash and the unit \<open>e\<close> stand for in a JSON string.\<close>

definition unescape :: "16 word \<Rightarrow> 16 word option" where
  "unescape e =
     (if e = 0x22 then Some 0x22
      else if e = 0x5C then Some 0x5C
      else if e = 0x2F then Some 0x2F
      else if e = 0x62 then Some 0x08
      else if e = 0x66 then Some 0x0C
      else if e = 0x6E then Some 0x0A
      else if e = 0x72 then Some 0x0D
      else if e = 0x74 then Some 0x09
      else None)"

text \<open>
  The body of a JSON string up to its closing double quote: the string that it denotes
  and the text after the quote.
\<close>

fun parse_string_body :: "jsstring \<Rightarrow> (jsstring \<times> jsstring) option" where
  "parse_string_body [] = None"
| "parse_string_body (c # cs) =
     (if c = 0x22 then Some ([], cs)
      else if c = 0x5C then
        (case cs of
           [] \<Rightarrow> None
         | e # es \<Rightarrow>
             (if e = 0x75 then
                (case es of
                   h1 # h2 # h3 # h4 # r \<Rightarrow>
                     (case hex4 h1 h2 h3 h4 of
                        None \<Rightarrow> None
                      | Some u \<Rightarrow> map_option (apfst (Cons u)) (parse_string_body r))
                 | _ \<Rightarrow> None)
              else
                (case unescape e of
                   None \<Rightarrow> None
                 | Some u \<Rightarrow> map_option (apfst (Cons u)) (parse_string_body es))))
      else if c < 0x20 then None
      else map_option (apfst (Cons c)) (parse_string_body cs))"






text \<open>The token of the specification (SignedAccessToken, section 3): the decoded fields.\<close>

record SignedAccessToken =
  resourceURL :: jsstring
  expiresAtEpochSeconds :: int
  keyPairId :: jsstring
  signature :: "byte list"


subsection \<open>Verification\<close>




subsection \<open>Strings that the wire form carries unchanged\<close>



section \<open>Cache policies\<close>

definition valid_ttls :: "CachePolicy \<Rightarrow> bool" where
  "valid_ttls c =
     (0 \<le> minTtl c \<and> 0 \<le> defaultTtl c \<and> 0 \<le> maxTtl c
      \<and> minTtl c \<le> defaultTtl c \<and> defaultTtl c \<le> maxTtl c)"

datatype ConfigError = InvalidPolicy

text \<open>
  Modelled from the spec: the construction of a CachePolicy (section 4.1), which is part
  of the CDK library and not of the repository: ``construction fails with InvalidPolicy
  if minTTL > defaultTTL or defaultTTL > maxTTL or any duration is negative''.
\<close>

definition new_CachePolicy ::
  "string \<Rightarrow> Duration \<Rightarrow> Duration \<Rightarrow> Duration \<Rightarrow> ConfigError + CachePolicy" where
  "new_CachePolicy name mn df mx =
     (if mn > df \<or> df > mx \<or> mn < 0 \<or> df < 0 \<or> mx < 0 then Inl InvalidPolicy
      else Inr \<lparr>policyId = name, minTtl = mn, defaultTtl = df, maxTtl = mx\<rparr>)"

text \<open>All behaviors of a distribution: the default one and the additional ones.\<close>

definition behaviors :: "Distribution \<Rightarrow> BehaviorOptions list" where
  "behaviors d = defaultBehavior d # map snd (additionalBehaviors d)"

text \<open>
  Properties of the stack as the application deploys it, with \<^verbatim>\<open>AppsLoginUrl\<close> set in
  addition.
\<close>

definition appsProps :: WebUIProps where
  "appsProps = stackProps appProps \<lparr>AppsLoginUrl := Some ''https://apps.example.com/login''\<rparr>"

section \<open>Properties of the behavior table and of the error responses\<close>

lemmas construct_defs =
  new_WebUI_def mkWebsiteDistribution_def mkAdditionalBehaviors_def mkErrorResponses_def

lemmas resolver_defs = Resolve_def matches_def normalize_def requireSignedToken_def

lemmas duration_defs =
  Duration_seconds_def Duration_minutes_def Duration_hours_def Duration_days_def

text \<open>The construct that the application deploys.\<close>

lemma app_eq: "app = new_WebUI (stackProps appProps)"
  by (simp add: app_def new_NerdiylandWebUi_def)

text \<open>
  A path that the pattern of a vendor-chunk rule matches is matched by the wildcard of its
  directory too, and the source declares the wildcard first. So the resolver never
  returns either vendor-chunk rule.
\<close>

lemma matches_chunk_vendors:
  "matches ''/js/chunk-vendors*'' p \<Longrightarrow> matches ''/js/*'' p"
  "matches ''/css/chunk-vendors*'' p \<Longrightarrow> matches ''/css/*'' p"
  by (auto simp: matches_def prefix_def)

lemma chunk_vendors_rules_unreachable:
  "fst (Resolve (websiteDistribution (new_WebUI props)) path) \<noteq> Some ''/js/chunk-vendors*''
   \<and> fst (Resolve (websiteDistribution (new_WebUI props)) path) \<noteq> Some ''/css/chunk-vendors*''"
  using matches_chunk_vendors [of "normalize path"]
  by (auto simp: construct_defs Resolve_def)

text \<open>
  Claim C1 says that the vendor-chunk rules precede their wildcards, so that the path
  \<^verbatim>\<open>/js/chunk-vendors/app.js\<close> resolves to the public rule \<^verbatim>\<open>/js/chunk-vendors*\<close>. The
  source declares \<^verbatim>\<open>/js/*\<close> before \<^verbatim>\<open>/js/chunk-vendors*\<close>: for every configuration,
  first-match resolution of that path returns the rule \<^verbatim>\<open>/js/*\<close>, which requires a
  signed token.
\<close>

theorem vendor_chunk_resolves_to_signed_rule:
  "Resolve (websiteDistribution (new_WebUI props)) ''/js/chunk-vendors/app.js'' =
     (Some ''/js/*'',
      \<lparr>origin = defaultOrigin props, cachePolicy = longStorageCachePolicy,
       viewerProtocolPolicy = HTTPS_ONLY,
       trustedKeyGroups = Some [mkTrustedKeyGroup props]\<rparr>)
   \<and> requireSignedToken
        (snd (Resolve (websiteDistribution (new_WebUI props)) ''/js/chunk-vendors/app.js''))"
  by (simp add: construct_defs resolver_defs)

text \<open>
  Claim C2: the distribution declares error responses for 404 and 403 only. An origin
  status 404 is answered with status 200 and the page \<^verbatim>\<open>/\<close>; an origin status 403 with
  status 200 and the page \<^verbatim>\<open>/login.html\<close>, or \<^verbatim>\<open>/apps-login.html\<close> when
  \<^verbatim>\<open>AppsLoginUrl\<close> is set (truthy); every other status passes through unchanged.
\<close>

theorem error_mapping:
  "Map_status (websiteDistribution (new_WebUI props)) 404 = (200, Some ''/'')
   \<and> (\<not> truthy (AppsLoginUrl props) \<longrightarrow>
        Map_status (websiteDistribution (new_WebUI props)) 403 = (200, Some ''/login.html''))
   \<and> (truthy (AppsLoginUrl props) \<longrightarrow>
        Map_status (websiteDistribution (new_WebUI props)) 403 = (200, Some ''/apps-login.html''))
   \<and> (status \<noteq> 404 \<and> status \<noteq> 403 \<longrightarrow>
        Map_status (websiteDistribution (new_WebUI props)) status = (status, None))
   \<and> map httpStatus (errorResponses (websiteDistribution (new_WebUI props))) = [404, 403]"
  by (simp add: construct_defs Map_status_def)

theorem error_mapping_witness:
  "\<not> truthy (AppsLoginUrl (stackProps appProps))
   \<and> Map_status (websiteDistribution (new_WebUI (stackProps appProps))) 403
        = (200, Some ''/login.html'')
   \<and> (200::int) \<noteq> 404 \<and> (200::int) \<noteq> 403
   \<and> Map_status (websiteDistribution (new_WebUI (stackProps appProps))) 200 = (200, None)
   \<and> truthy (AppsLoginUrl appsProps)
   \<and> Map_status (websiteDistribution (new_WebUI appsProps)) 403 = (200, Some ''/apps-login.html'')"
proof -
  have f: "\<not> truthy (AppsLoginUrl (stackProps appProps))"
    by (simp add: truthy_def stackProps_def)
  have t: "truthy (AppsLoginUrl appsProps)"
    by (simp add: truthy_def appsProps_def)
  show ?thesis
    using f t error_mapping [of "stackProps appProps" 200] error_mapping [of appsProps 200]
    by simp
qed

text \<open>
  Claim C7: in the constructed table the path \<^verbatim>\<open>/assets/logo.png\<close> resolves to the rule
  \<^verbatim>\<open>/assets/*\<close>, which requires a signed token and carries the long-storage cache
  policy; a path that no declared pattern matches resolves to the default behavior, which
  requires a signed token and carries the default cache policy, whose default TTL is five
  minutes.
\<close>

theorem assets_and_default_resolution:
  assumes "\<forall>(pat, b) \<in> set (additionalBehaviors (websiteDistribution (new_WebUI props))).
             \<not> matches pat (normalize path)"
  shows "fst (Resolve (websiteDistribution (new_WebUI props)) ''/assets/logo.png'') = Some ''/assets/*''
    \<and> requireSignedToken (snd (Resolve (websiteDistribution (new_WebUI props)) ''/assets/logo.png''))
    \<and> cachePolicy (snd (Resolve (websiteDistribution (new_WebUI props)) ''/assets/logo.png''))
        = longStorageCachePolicy
    \<and> Resolve (websiteDistribution (new_WebUI props)) path
        = (None, defaultBehavior (websiteDistribution (new_WebUI props)))
    \<and> requireSignedToken (snd (Resolve (websiteDistribution (new_WebUI props)) path))
    \<and> cachePolicy (snd (Resolve (websiteDistribution (new_WebUI props)) path)) = defaultCachePolicy
    \<and> defaultTtl defaultCachePolicy = Duration_minutes 5
    \<and> defaultTtl defaultCachePolicy < defaultTtl longStorageCachePolicy"
proof -
  have none: "find (\<lambda>(pat, b). matches pat (normalize path))
                (additionalBehaviors (websiteDistribution (new_WebUI props))) = None"
    using assms by (auto simp: find_None_iff)
  have dflt: "Resolve (websiteDistribution (new_WebUI props)) path
                = (None, defaultBehavior (websiteDistribution (new_WebUI props)))"
    by (simp add: Resolve_def none)
  have assets: "Resolve (websiteDistribution (new_WebUI props)) ''/assets/logo.png'' =
     (Some ''/assets/*'',
      \<lparr>origin = defaultOrigin props, cachePolicy = longStorageCachePolicy,
       viewerProtocolPolicy = HTTPS_ONLY,
       trustedKeyGroups = Some [mkTrustedKeyGroup props]\<rparr>)"
    by (simp add: construct_defs resolver_defs)
  have ttl: "defaultTtl defaultCachePolicy = Duration_minutes 5
      \<and> defaultTtl defaultCachePolicy < defaultTtl longStorageCachePolicy"
    by (simp add: defaultCachePolicy_def longStorageCachePolicy_def duration_defs)
  show ?thesis
    unfolding dflt assets using ttl
    by (simp add: requireSignedToken_def new_WebUI_def mkWebsiteDistribution_def)
qed

theorem assets_and_default_resolution_witness:
  "find (\<lambda>(pat, b). matches pat (normalize ''/index.html''))
     (additionalBehaviors (websiteDistribution (new_WebUI (stackProps appProps)))) = None
   \<and> fst (Resolve (websiteDistribution (new_WebUI (stackProps appProps))) ''/assets/logo.png'')
        = Some ''/assets/*''
   \<and> Resolve (websiteDistribution (new_WebUI (stackProps appProps))) ''/index.html''
        = (None, defaultBehavior (websiteDistribution (new_WebUI (stackProps appProps))))
   \<and> requireSignedToken
        (snd (Resolve (websiteDistribution (new_WebUI (stackProps appProps))) ''/index.html''))"
proof -
  have h: "\<forall>(pat, b) \<in> set (additionalBehaviors (websiteDistribution (new_WebUI (stackProps appProps)))).
             \<not> matches pat (normalize ''/index.html'')"
    by (simp add: construct_defs matches_def normalize_def)
  have n: "find (\<lambda>(pat, b). matches pat (normalize ''/index.html''))
     (additionalBehaviors (websiteDistribution (new_WebUI (stackProps appProps)))) = None"
    using h by (auto simp: find_None_iff)
  show ?thesis
    using n assets_and_default_resolution [OF h] by blast
qed

text \<open>
  Claim C8: the cache policies that the construct builds, and so the cache policy of
  every behavior of the distribution, are the default policy (0 s, 5 min, 24 h) and the
  long-storage policy (365 d, 720 d, 3650 d); both have non-negative durations with
  \<open>minTtl \<le> defaultTtl \<le> maxTtl\<close> and are accepted by the validating construction, which
  fails with \<open>InvalidPolicy\<close> on every triple of durations that violates the invariant.
\<close>

theorem cache_policies_valid:
  "(\<forall>b \<in> set (behaviors (websiteDistribution (new_WebUI props))).
      cachePolicy b \<in> {defaultCachePolicy, longStorageCachePolicy})
   \<and> valid_ttls defaultCachePolicy \<and> valid_ttls longStorageCachePolicy
   \<and> new_CachePolicy ''DefaultCachePolicy'' (Duration_seconds 0) (Duration_minutes 5)
        (Duration_hours 24) = Inr defaultCachePolicy
   \<and> new_CachePolicy ''LongStorageCachePolicy'' (Duration_days 365) (Duration_days 720)
        (Duration_days 3650) = Inr longStorageCachePolicy
   \<and> (\<not> valid_ttls \<lparr>policyId = name, minTtl = mn, defaultTtl = df, maxTtl = mx\<rparr> \<longrightarrow>
        new_CachePolicy name mn df mx = Inl InvalidPolicy)"
proof -
  have 1: "\<forall>b \<in> set (behaviors (websiteDistribution (new_WebUI props))).
      cachePolicy b \<in> {defaultCachePolicy, longStorageCachePolicy}"
    by (simp add: behaviors_def construct_defs)
  have 2: "valid_ttls defaultCachePolicy \<and> valid_ttls longStorageCachePolicy"
    by (simp add: valid_ttls_def defaultCachePolicy_def longStorageCachePolicy_def duration_defs)
  have 3: "new_CachePolicy ''DefaultCachePolicy'' (Duration_seconds 0) (Duration_minutes 5)
        (Duration_hours 24) = Inr defaultCachePolicy"
    by (simp add: new_CachePolicy_def defaultCachePolicy_def duration_defs)
  have 4: "new_CachePolicy ''LongStorageCachePolicy'' (Duration_days 365) (Duration_days 720)
        (Duration_days 3650) = Inr longStorageCachePolicy"
    by (simp add: new_CachePolicy_def longStorageCachePolicy_def duration_defs)
  have 5: "\<not> valid_ttls \<lparr>policyId = name, minTtl = mn, defaultTtl = df, maxTtl = mx\<rparr> \<longrightarrow>
        new_CachePolicy name mn df mx = Inl InvalidPolicy"
    by (auto simp: valid_ttls_def new_CachePolicy_def)
  from 1 2 3 4 5 show ?thesis by blast
qed

theorem cache_policies_valid_witness:
  "defaultBehavior (websiteDistribution (new_WebUI (stackProps appProps)))
      \<in> set (behaviors (websiteDistribution (new_WebUI (stackProps appProps))))
   \<and> cachePolicy (defaultBehavior (websiteDistribution (new_WebUI (stackProps appProps))))
      \<in> {defaultCachePolicy, longStorageCachePolicy}
   \<and> valid_ttls defaultCachePolicy
   \<and> \<not> valid_ttls \<lparr>policyId = ''p'', minTtl = 10, defaultTtl = 5, maxTtl = 20\<rparr>
   \<and> new_CachePolicy ''p'' 10 5 20 = Inl InvalidPolicy"
proof -
  have m: "defaultBehavior (websiteDistribution (new_WebUI (stackProps appProps)))
      \<in> set (behaviors (websiteDistribution (new_WebUI (stackProps appProps))))"
    by (simp add: behaviors_def)
  have v: "\<not> valid_ttls \<lparr>policyId = ''p'', minTtl = 10, defaultTtl = 5, maxTtl = 20\<rparr>"
    by (simp add: valid_ttls_def)
  show ?thesis
    using m v cache_policies_valid [of "stackProps appProps" "''p''" 10 5 20] by blast
qed

section \<open>Properties of the construct as a function of its properties\<close>

text \<open>
  The construct reads \<^verbatim>\<open>AppsLoginUrl\<close> only through its truthiness: two property records
  that agree on that and on every other property build the same construct.
\<close>

lemma new_WebUI_cong:
  assumes "truthy (AppsLoginUrl p) = truthy (AppsLoginUrl q)"
    and "q\<lparr>AppsLoginUrl := AppsLoginUrl p\<rparr> = p"
  shows "new_WebUI p = new_WebUI q"
proof -
  from assms(2) have eqs: "aliases p = aliases q" "acmCertificateArn p = acmCertificateArn q"
    "WebUIProps.viewersPublicKeyId p = WebUIProps.viewersPublicKeyId q"
    "WebUIProps.loginBucketName p = WebUIProps.loginBucketName q"
    "OriginAccessIdentityName p = OriginAccessIdentityName q"
    "OriginAccessIdentityCanonicalUserId p = OriginAccessIdentityCanonicalUserId q"
    by (cases p, cases q, simp)+
  show ?thesis
    using assms(1) by (simp add: construct_defs eqs mkTrustedKeyGroup_def defaultOrigin_def loginOrigin_def mkWebsiteBucket_def)
qed

text \<open>
  Claim C9: two configurations that differ only in the value of a truthy
  \<^verbatim>\<open>AppsLoginUrl\<close> build the same construct (bucket, key group, distribution with its
  behaviors and error responses, outputs), and the page for the status 403 is
  \<^verbatim>\<open>/apps-login.html\<close>.
\<close>

theorem AppsLoginUrl_noninterference:
  assumes "truthy (AppsLoginUrl p)" and "truthy (AppsLoginUrl q)"
    and "q\<lparr>AppsLoginUrl := AppsLoginUrl p\<rparr> = p"
  shows "new_WebUI p = new_WebUI q
    \<and> map responsePagePath (errorResponses (websiteDistribution (new_WebUI p)))
        = [''/'', ''/apps-login.html'']"
  using new_WebUI_cong [of p q] assms by (simp add: construct_defs)

theorem AppsLoginUrl_noninterference_witness:
  "truthy (AppsLoginUrl appsProps)
   \<and> truthy (AppsLoginUrl (appsProps\<lparr>AppsLoginUrl := Some ''x''\<rparr>))
   \<and> AppsLoginUrl appsProps \<noteq> AppsLoginUrl (appsProps\<lparr>AppsLoginUrl := Some ''x''\<rparr>)
   \<and> new_WebUI appsProps = new_WebUI (appsProps\<lparr>AppsLoginUrl := Some ''x''\<rparr>)"
proof -
  have a: "truthy (AppsLoginUrl appsProps)"
    by (simp add: truthy_def appsProps_def)
  have b: "truthy (AppsLoginUrl (appsProps\<lparr>AppsLoginUrl := Some ''x''\<rparr>))"
    by (simp add: truthy_def)
  have c: "appsProps\<lparr>AppsLoginUrl := Some ''x''\<rparr>\<lparr>AppsLoginUrl := AppsLoginUrl appsProps\<rparr> = appsProps"
    by simp
  have d: "AppsLoginUrl appsProps \<noteq> AppsLoginUrl (appsProps\<lparr>AppsLoginUrl := Some ''x''\<rparr>)"
    by (simp add: appsProps_def)
  show ?thesis
    using a b d AppsLoginUrl_noninterference [OF a b c] by blast
qed

text \<open>
  Claim C10: every additional behavior whose origin is the login bucket names no trusted
  key group and so requires no signed token; these behaviors are exactly
  \<^verbatim>\<open>/login.html\<close>, \<^verbatim>\<open>/apps-login.html\<close>, \<^verbatim>\<open>/eth-login.html\<close>, \<^verbatim>\<open>/idpresponse.html\<close>
  and \<^verbatim>\<open>/apps-idpresponse.html\<close>, and the default behavior is not served from the login
  bucket. Each of the five pages is reachable without a signed token: its path, with or
  without a query string, resolves to its own rule, no earlier pattern takes it, and the
  rule that is returned is served from the login bucket and requires no signed token.
\<close>

theorem login_behaviors_public:
  "(\<forall>(pat, b) \<in> set (additionalBehaviors (websiteDistribution (new_WebUI props))).
      origin b = loginOrigin props \<longrightarrow> trustedKeyGroups b = None \<and> \<not> requireSignedToken b)
   \<and> map fst (filter (\<lambda>(pat, b). origin b = loginOrigin props)
        (additionalBehaviors (websiteDistribution (new_WebUI props))))
      = [''/login.html'', ''/apps-login.html'', ''/eth-login.html'', ''/idpresponse.html'',
         ''/apps-idpresponse.html'']
   \<and> origin (defaultBehavior (websiteDistribution (new_WebUI props))) \<noteq> loginOrigin props
   \<and> (\<forall>page \<in> {''/login.html'', ''/apps-login.html'', ''/eth-login.html'', ''/idpresponse.html'',
         ''/apps-idpresponse.html''}.
        fst (Resolve (websiteDistribution (new_WebUI props)) page) = Some page
        \<and> origin (snd (Resolve (websiteDistribution (new_WebUI props)) page)) = loginOrigin props
        \<and> \<not> requireSignedToken (snd (Resolve (websiteDistribution (new_WebUI props)) page))
        \<and> (\<forall>query. Resolve (websiteDistribution (new_WebUI props)) (page @ CHR ''?'' # query)
              = Resolve (websiteDistribution (new_WebUI props)) page))"
proof -
  have a: "(\<forall>(pat, b) \<in> set (additionalBehaviors (websiteDistribution (new_WebUI props))).
      origin b = loginOrigin props \<longrightarrow> trustedKeyGroups b = None \<and> \<not> requireSignedToken b)
   \<and> map fst (filter (\<lambda>(pat, b). origin b = loginOrigin props)
        (additionalBehaviors (websiteDistribution (new_WebUI props))))
      = [''/login.html'', ''/apps-login.html'', ''/eth-login.html'', ''/idpresponse.html'',
         ''/apps-idpresponse.html'']
   \<and> origin (defaultBehavior (websiteDistribution (new_WebUI props))) \<noteq> loginOrigin props"
    by (simp add: construct_defs requireSignedToken_def loginOrigin_def defaultOrigin_def)
  have n: "normalize (page @ CHR ''?'' # query) = normalize page"
    if "page \<in> {''/login.html'', ''/apps-login.html'', ''/eth-login.html'', ''/idpresponse.html'',
         ''/apps-idpresponse.html''}" for page query
    using that by (elim insertE emptyE; simp add: normalize_def)
  have q: "Resolve d (page @ CHR ''?'' # query) = Resolve d page"
    if "page \<in> {''/login.html'', ''/apps-login.html'', ''/eth-login.html'', ''/idpresponse.html'',
         ''/apps-idpresponse.html''}" for page query d
    by (simp add: Resolve_def n [OF that])
  have r: "fst (Resolve (websiteDistribution (new_WebUI props)) page) = Some page
        \<and> origin (snd (Resolve (websiteDistribution (new_WebUI props)) page)) = loginOrigin props
        \<and> \<not> requireSignedToken (snd (Resolve (websiteDistribution (new_WebUI props)) page))"
    if "page \<in> {''/login.html'', ''/apps-login.html'', ''/eth-login.html'', ''/idpresponse.html'',
         ''/apps-idpresponse.html''}" for page
    using that by (elim insertE emptyE; simp add: construct_defs resolver_defs)
  from a q r show ?thesis by blast
qed

theorem login_behaviors_public_witness:
  "(''/login.html'',
      \<lparr>origin = loginOrigin (stackProps appProps), cachePolicy = defaultCachePolicy,
       viewerProtocolPolicy = REDIRECT_TO_HTTPS, trustedKeyGroups = None\<rparr>)
     \<in> set (additionalBehaviors (websiteDistribution (new_WebUI (stackProps appProps))))
   \<and> \<not> requireSignedToken
       \<lparr>origin = loginOrigin (stackProps appProps), cachePolicy = defaultCachePolicy,
        viewerProtocolPolicy = REDIRECT_TO_HTTPS, trustedKeyGroups = None\<rparr>
   \<and> fst (Resolve (websiteDistribution (new_WebUI (stackProps appProps))) ''/idpresponse.html'')
       = Some ''/idpresponse.html''
   \<and> \<not> requireSignedToken
       (snd (Resolve (websiteDistribution (new_WebUI (stackProps appProps))) ''/idpresponse.html''))
   \<and> Resolve (websiteDistribution (new_WebUI (stackProps appProps))) ''/idpresponse.html?code=abc''
       = Resolve (websiteDistribution (new_WebUI (stackProps appProps))) ''/idpresponse.html''"
proof -
  have m: "(''/login.html'',
      \<lparr>origin = loginOrigin (stackProps appProps), cachePolicy = defaultCachePolicy,
       viewerProtocolPolicy = REDIRECT_TO_HTTPS, trustedKeyGroups = None\<rparr>)
     \<in> set (additionalBehaviors (websiteDistribution (new_WebUI (stackProps appProps))))"
    by (simp add: construct_defs)
  have p: "''/idpresponse.html'' \<in> {''/login.html'', ''/apps-login.html'', ''/eth-login.html'',
      ''/idpresponse.html'', ''/apps-idpresponse.html''}"
    by simp
  have e: "''/idpresponse.html?code=abc'' = ''/idpresponse.html'' @ CHR ''?'' # ''code=abc''"
    by simp
  show ?thesis
    unfolding e
    using m p login_behaviors_public [of "stackProps appProps"] by fastforce
qed

section \<open>Properties of the signed-URL generator\<close>

subsection \<open>The policy document\<close>

lemma trailing_not_whitespace: "is_trailing_surrogate d \<Longrightarrow> \<not> is_js_whitespace d"
  by (auto simp: is_trailing_surrogate_def is_js_whitespace_def word_le_nat_alt)

lemma quote_units_plain: "plain s \<Longrightarrow> quote_units s = s"
proof (induction s rule: plain.induct)
  case 1
  show ?case by simp
next
  case (2 c cs)
  from "2.prems" have c: "c \<noteq> 0x08" "c \<noteq> 0x09" "c \<noteq> 0x0A" "c \<noteq> 0x0C" "c \<noteq> 0x0D"
    "c \<noteq> 0x22" "c \<noteq> 0x5C" "\<not> c < 0x20"
    by (auto simp: word_le_nat_alt word_less_nat_alt)
  show ?case
  proof (cases "is_leading_surrogate c")
    case True
    with "2.prems" obtain d ds where cs: "cs = d # ds" and d: "is_trailing_surrogate d" and ds: "plain ds"
      by (auto split: list.splits)
    from "2.IH"(1) [OF True cs] ds have "quote_units ds = ds" by simp
    with c True cs d show ?thesis by simp
  next
    case False
    with "2.prems" have "\<not> is_trailing_surrogate c" "plain cs" by simp_all
    with "2.IH"(2) [OF False] c False show ?thesis by simp
  qed
qed

lemma remove_whitespace_plain: "plain s \<Longrightarrow> remove_whitespace s = s"
proof (induction s rule: plain.induct)
  case 1
  show ?case by (simp add: remove_whitespace_def)
next
  case (2 c cs)
  show ?case
  proof (cases "is_leading_surrogate c")
    case True
    with "2.prems" obtain d ds where cs: "cs = d # ds" and d: "is_trailing_surrogate d" and ds: "plain ds"
      by (auto split: list.splits)
    from "2.IH"(1) [OF True cs] ds have "remove_whitespace ds = ds" by simp
    with "2.prems" cs d trailing_not_whitespace [OF d] show ?thesis
      by (simp add: remove_whitespace_def)
  next
    case False
    with "2.prems" have "plain cs" by simp
    with "2.IH"(2) [OF False] "2.prems" show ?thesis
      by (simp add: remove_whitespace_def)
  qed
qed

lemma digit_not_whitespace: "k < 10 \<Longrightarrow> \<not> is_js_whitespace (0x30 + of_nat k)"
proof -
  assume "k < 10"
  then have "k \<in> {0, 1, 2, 3, 4, 5, 6, 7, 8, 9}" by auto
  then show ?thesis by (auto simp: is_js_whitespace_def)
qed

lemma remove_whitespace_digits: "remove_whitespace (digits n) = digits n"
proof (induction n rule: digits.induct)
  case (1 n)
  show ?case
  proof (cases "n < 10")
    case True
    then show ?thesis
      by (subst (1 2) digits.simps) (simp add: remove_whitespace_def digit_not_whitespace)
  next
    case False
    have "n mod 10 < 10" by simp
    with False "1.IH" show ?thesis
      by (subst (1 2) digits.simps) (simp add: remove_whitespace_def digit_not_whitespace)
  qed
qed

lemma remove_whitespace_Number_toString:
  "remove_whitespace (Number_toString n) = Number_toString n"
  using remove_whitespace_digits [of "nat n"] remove_whitespace_digits [of "nat (- n)"]
  by (simp add: Number_toString_def remove_whitespace_def is_js_whitespace_def)

lemma remove_whitespace_append:
  "remove_whitespace (xs @ ys) = remove_whitespace xs @ remove_whitespace ys"
  by (simp add: remove_whitespace_def)

lemma stringify_policy:
  \<open>stringify (policy url expires) =
     js ''{"Statement":[{"Resource":"'' @ quote_units url
       @ js ''","Condition":{"DateLessThan":{"AWS:EpochTime":'' @ Number_toString expires
       @ js ''}}}]}''\<close>
  by (simp add: policy_def js_def QuoteJSONString_def is_leading_surrogate_def is_trailing_surrogate_def)

lemma policyString_plain:
  assumes "plain url"
  shows \<open>policyString url expires =
     js ''{"Statement":[{"Resource":"'' @ url
       @ js ''","Condition":{"DateLessThan":{"AWS:EpochTime":'' @ Number_toString expires
       @ js ''}}}]}''\<close>
proof -
  have a: \<open>remove_whitespace (js ''{"Statement":[{"Resource":"'') = js ''{"Statement":[{"Resource":"''\<close>
    by (simp add: js_def remove_whitespace_def is_js_whitespace_def)
  have b: \<open>remove_whitespace (js ''","Condition":{"DateLessThan":{"AWS:EpochTime":'')
      = js ''","Condition":{"DateLessThan":{"AWS:EpochTime":''\<close>
    by (simp add: js_def remove_whitespace_def is_js_whitespace_def)
  have c: \<open>remove_whitespace (js ''}}}]}'') = js ''}}}]}''\<close>
    by (simp add: js_def remove_whitespace_def is_js_whitespace_def)
  show ?thesis
    unfolding policyString_def stringify_policy quote_units_plain [OF assms] remove_whitespace_append
      a b c remove_whitespace_plain [OF assms] remove_whitespace_Number_toString ..
qed

lemma policyString_whitespace_free:
  "\<forall>c \<in> set (policyString url expires). \<not> is_js_whitespace c"
  by (simp add: policyString_def remove_whitespace_def)

lemma policyString_general:
  \<open>policyString url expires =
     js ''{"Statement":[{"Resource":"'' @ remove_whitespace (quote_units url)
       @ js ''","Condition":{"DateLessThan":{"AWS:EpochTime":'' @ Number_toString expires
       @ js ''}}}]}''\<close>
proof -
  have a: \<open>remove_whitespace (js ''{"Statement":[{"Resource":"'') = js ''{"Statement":[{"Resource":"''\<close>
    by (simp add: js_def remove_whitespace_def is_js_whitespace_def)
  have b: \<open>remove_whitespace (js ''","Condition":{"DateLessThan":{"AWS:EpochTime":'')
      = js ''","Condition":{"DateLessThan":{"AWS:EpochTime":''\<close>
    by (simp add: js_def remove_whitespace_def is_js_whitespace_def)
  have c: \<open>remove_whitespace (js ''}}}]}'') = js ''}}}]}''\<close>
    by (simp add: js_def remove_whitespace_def is_js_whitespace_def)
  show ?thesis
    unfolding policyString_def stringify_policy remove_whitespace_append
      a b c remove_whitespace_Number_toString ..
qed

text \<open>
  The UTF-8 encoding distributes over a concatenation whose second part does not begin
  with a trailing surrogate, and so over the parts of the policy document.
\<close>

lemma utf8_append:
  "(b = [] \<or> \<not> is_trailing_surrogate (hd b)) \<Longrightarrow> utf8 (a @ b) = utf8 a @ utf8 b"
proof (induction a rule: utf8.induct)
  case 1
  show ?case by simp
next
  case (2 c cs)
  show ?case
  proof (cases cs)
    case Nil
    with "2.prems" show ?thesis
      by (cases b) (simp_all add: Let_def)
  next
    case (Cons d ds)
    with 2 show ?thesis
      by (simp add: Let_def)
  qed
qed

lemma utf8_policy:
  \<open>utf8 (js ''{"Statement":[{"Resource":"'' @ u
       @ js ''","Condition":{"DateLessThan":{"AWS:EpochTime":'' @ n @ js ''}}}]}'') =
     ascii ''{"Statement":[{"Resource":"'' @ utf8 u
       @ ascii ''","Condition":{"DateLessThan":{"AWS:EpochTime":'' @ utf8 n
       @ ascii ''}}}]}''\<close>
proof -
  have a: \<open>utf8 (js ''{"Statement":[{"Resource":"'' @ x) = ascii ''{"Statement":[{"Resource":"'' @ utf8 x\<close>
    for x
    by (simp add: js_def ascii_def)
  have b: \<open>utf8 (u @ js ''","Condition":{"DateLessThan":{"AWS:EpochTime":'' @ x) =
      utf8 u @ ascii ''","Condition":{"DateLessThan":{"AWS:EpochTime":'' @ utf8 x\<close> for x
    by (subst utf8_append) (simp_all add: js_def ascii_def is_trailing_surrogate_def)
  have c: \<open>utf8 (n @ js ''}}}]}'') = utf8 n @ ascii ''}}}]}''\<close>
    by (subst utf8_append) (simp_all add: js_def ascii_def is_trailing_surrogate_def)
  show ?thesis
    by (simp only: a b c)
qed

lemma policy_bytes_plain:
  assumes "plain url"
  shows \<open>utf8 (policyString url expires) =
     ascii ''{"Statement":[{"Resource":"'' @ utf8 url
       @ ascii ''","Condition":{"DateLessThan":{"AWS:EpochTime":'' @ utf8 (Number_toString expires)
       @ ascii ''}}}]}''\<close>
  by (simp only: policyString_plain [OF assms] utf8_policy)

lemmas eval_defs =
  js_def Number_toString_def digits.simps is_js_whitespace_def is_leading_surrogate_def
  is_trailing_surrogate_def UnicodeEscape_def hex_digit_def remove_whitespace_def

lemma example_policy_3600:
  \<open>policyString (js ''https://d123456789.cloudfront.net/app.html'') 1730003600 =
    js ''{"Statement":[{"Resource":"https://d123456789.cloudfront.net/app.html","Condition":{"DateLessThan":{"AWS:EpochTime":1730003600}}}]}''\<close>
  by (simp add: policyString_general eval_defs)

lemma example_policy_0:
  \<open>policyString (js ''https://d123456789.cloudfront.net/app.html'') 1730000000 =
    js ''{"Statement":[{"Resource":"https://d123456789.cloudfront.net/app.html","Condition":{"DateLessThan":{"AWS:EpochTime":1730000000}}}]}''\<close>
  by (simp add: policyString_general eval_defs)

lemma example_policy_negative:
  \<open>policyString (js ''https://d123456789.cloudfront.net/app.html'') 1729999995 =
    js ''{"Statement":[{"Resource":"https://d123456789.cloudfront.net/app.html","Condition":{"DateLessThan":{"AWS:EpochTime":1729999995}}}]}''\<close>
  by (simp add: policyString_general eval_defs)

text \<open>
  Examples of the escapes and of the encoding: a control character, a double quote and a
  surrogate outside a pair are escaped, a surrogate pair is copied; one, two and three
  bytes for a unit, four for a surrogate pair, U+FFFD for a surrogate outside a pair.
\<close>

lemma quote_units_example:
  "quote_units [0x01, 0x22, 0xD800, 0x41, 0xD83D, 0xDE00, 0x0A] =
     [0x5C, 0x75, 0x30, 0x30, 0x30, 0x31, 0x5C, 0x22, 0x5C, 0x75, 0x64, 0x38, 0x30, 0x30,
      0x41, 0xD83D, 0xDE00, 0x5C, 0x6E]"
  by (simp add: eval_defs)

lemma utf8_example:
  "utf8 [0x61, 0xE9, 0x20AC, 0xD83D, 0xDE00, 0xD800] =
     [0x61, 0xC3, 0xA9, 0xE2, 0x82, 0xAC, 0xF0, 0x9F, 0x98, 0x80, 0xEF, 0xBF, 0xBD]"
  by (simp add: is_leading_surrogate_def is_trailing_surrogate_def)

text \<open>
  A double quote in the URL is written with a backslash, as JSON demands.
\<close>

lemma policy_escape_example:
  \<open>policyString (js ''a"b'') 7 =
     js ''{"Statement":[{"Resource":"a'' @ [0x5C] @ js ''"b","Condition":{"DateLessThan":{"AWS:EpochTime":7}}}]}''\<close>
  by (simp add: policyString_general eval_defs)


text \<open>
  Claim C3 says that the policy document is the template with the URL substituted as it
  is, for every URL. It is not so for a URL with white space: the space of
  \<^verbatim>\<open>https://example.com/a b\<close> is removed from the document together with the white space
  of the serialization.
\<close>

theorem policy_whitespace_counterexample:
  \<open>policyString (js ''https://example.com/a b'') 1730003600 =
     js ''{"Statement":[{"Resource":"https://example.com/ab","Condition":{"DateLessThan":{"AWS:EpochTime":1730003600}}}]}''
   \<and> policyString (js ''https://example.com/a b'') 1730003600 \<noteq>
     js ''{"Statement":[{"Resource":"https://example.com/a b","Condition":{"DateLessThan":{"AWS:EpochTime":1730003600}}}]}''\<close>
  by (simp add: policyString_general eval_defs)

text \<open>
  Claim C3, amended: for every URL and every expiry that is a safe integer the policy
  document is the template with the expiry in decimal notation and with the URL in its
  JSON-escaped form without white space, and nothing else; it contains no white space;
  and where the URL is plain (no white space, double quote, backslash, unit below \<open>0x20\<close>
  or unpaired surrogate) it contains the URL as given, as a string and, in UTF-8, as the
  bytes that are signed.
\<close>

theorem policyString_canonical:
  assumes "safe_integer expires"
  shows \<open>policyString url expires =
      js ''{"Statement":[{"Resource":"'' @ remove_whitespace (quote_units url)
        @ js ''","Condition":{"DateLessThan":{"AWS:EpochTime":'' @ Number_toString expires
        @ js ''}}}]}''
    \<and> (plain url \<longrightarrow>
        policyString url expires =
          js ''{"Statement":[{"Resource":"'' @ url
            @ js ''","Condition":{"DateLessThan":{"AWS:EpochTime":'' @ Number_toString expires
            @ js ''}}}]}''
        \<and> utf8 (policyString url expires) =
          ascii ''{"Statement":[{"Resource":"'' @ utf8 url
            @ ascii ''","Condition":{"DateLessThan":{"AWS:EpochTime":''
            @ utf8 (Number_toString expires) @ ascii ''}}}]}'')
    \<and> (\<forall>c \<in> set (policyString url expires). \<not> is_js_whitespace c)\<close>
  using policyString_general [of url expires] policyString_plain [of url expires]
    policy_bytes_plain [of url expires] policyString_whitespace_free [of url expires]
  by blast

theorem policyString_canonical_witness:
  \<open>safe_integer 1730003600
    \<and> plain (js ''https://d123456789.cloudfront.net/app.html'')
    \<and> policyString (js ''https://d123456789.cloudfront.net/app.html'') 1730003600 =
        js ''{"Statement":[{"Resource":"https://d123456789.cloudfront.net/app.html","Condition":{"DateLessThan":{"AWS:EpochTime":1730003600}}}]}''
    \<and> 0x7B \<in> set (policyString (js ''https://d123456789.cloudfront.net/app.html'') 1730003600)
    \<and> \<not> is_js_whitespace 0x7B\<close>
proof -
  have s: "safe_integer 1730003600"
    by (simp add: safe_integer_def)
  have p: "plain (js ''https://d123456789.cloudfront.net/app.html'')"
    by (simp add: eval_defs)
  have n: "Number_toString 1730003600 = js ''1730003600''"
    by (simp add: eval_defs)
  have m: "0x7B \<in> set (policyString (js ''https://d123456789.cloudfront.net/app.html'') 1730003600)"
    by (simp add: example_policy_3600) (simp add: js_def)
  note c = policyString_canonical [of 1730003600 "js ''https://d123456789.cloudfront.net/app.html''", OF s]
  from c p have \<open>policyString (js ''https://d123456789.cloudfront.net/app.html'') 1730003600 =
      js ''{"Statement":[{"Resource":"'' @ js ''https://d123456789.cloudfront.net/app.html''
        @ js ''","Condition":{"DateLessThan":{"AWS:EpochTime":'' @ Number_toString 1730003600
        @ js ''}}}]}''\<close>
    by blast
  then have e: \<open>policyString (js ''https://d123456789.cloudfront.net/app.html'') 1730003600 =
        js ''{"Statement":[{"Resource":"https://d123456789.cloudfront.net/app.html","Condition":{"DateLessThan":{"AWS:EpochTime":1730003600}}}]}''\<close>
    by (simp add: n js_def)
  from c m have w: "\<not> is_js_whitespace 0x7B"
    by blast
  from s p e m w show ?thesis by blast
qed

subsection \<open>Base64\<close>

text \<open>
  Replacing \<^verbatim>\<open>+\<close> by \<^verbatim>\<open>-\<close> and \<^verbatim>\<open>/\<close> by \<^verbatim>\<open>_\<close> and deleting \<^verbatim>\<open>=\<close> in the padded
  standard encoding gives the unpadded encoding over the URL-safe alphabet.
\<close>

lemma url_safe_append: "url_safe (xs @ ys) = url_safe xs @ url_safe ys"
  by (simp add: url_safe_def replace_unit_def)

lemma url_safe_Cons: "url_safe (x # xs) = url_safe [x] @ url_safe xs"
  using url_safe_append [of "[x]" xs] by simp

lemma url_safe_Nil: "url_safe [] = []"
  by (simp add: url_safe_def replace_unit_def)

lemma url_safe_pad: "url_safe [0x3D] = []"
  by (simp add: url_safe_def replace_unit_def)

lemma url_safe_alphabet:
  "map (\<lambda>c. url_safe [c]) base64_chars = map (\<lambda>c. [c]) base64url_chars"
  by (simp add: base64_chars_def base64url_chars_def js_def url_safe_def replace_unit_def)

lemma url_safe_char:
  assumes "i < 64"
  shows "url_safe [base64_chars ! i] = [base64url_chars ! i]"
proof -
  have l: "length base64_chars = 64" "length base64url_chars = 64"
    by (simp_all add: base64_chars_def base64url_chars_def js_def)
  have "url_safe [base64_chars ! i] = map (\<lambda>c. url_safe [c]) base64_chars ! i"
    using assms l by simp
  also have "\<dots> = map (\<lambda>c. [c]) base64url_chars ! i"
    by (simp only: url_safe_alphabet)
  also have "\<dots> = [base64url_chars ! i]"
    using assms l by simp
  finally show ?thesis .
qed

lemma url_safe_char_Cons:
  "i < 64 \<Longrightarrow> url_safe (base64_chars ! i # xs) = base64url_chars ! i # url_safe xs"
  using url_safe_Cons [of "base64_chars ! i" xs] by (simp add: url_safe_char)

lemma url_safe_pad_Cons: "url_safe (0x3D # xs) = url_safe xs"
  using url_safe_Cons [of "0x3D" xs] by (simp add: url_safe_pad)

lemma byte_bound: "unat (a :: byte) < 256"
  using unsigned_less [of a, where ?'a = nat] by simp

lemma url_safe_base64: "url_safe (toString_base64 bs) = base64url_nopad bs"
  unfolding toString_base64_def base64url_nopad_def
proof (induction base64_chars True bs rule: encode64.induct)
  case 1
  show ?case by (simp add: url_safe_Nil)
next
  case (2 a)
  have "unat a * 65536 div 262144 < 64"
    using byte_bound [of a] by simp
  then show ?case
    by (simp add: Let_def url_safe_char_Cons url_safe_pad_Cons url_safe_Nil)
next
  case (3 a b)
  have "(unat a * 65536 + unat b * 256) div 262144 < 64"
    using byte_bound [of a] byte_bound [of b] by simp
  then show ?case
    by (simp add: Let_def url_safe_char_Cons url_safe_pad_Cons url_safe_Nil)
next
  case (4 a b c bs)
  have "(unat a * 65536 + unat b * 256 + unat c) div 262144 < 64"
    using byte_bound [of a] byte_bound [of b] byte_bound [of c] by simp
  with 4 show ?case
    by (simp add: Let_def url_safe_char_Cons)
qed

lemma base64url_example: \<open>base64url_nopad (utf8 (js ''hello?>~'')) = js ''aGVsbG8_Pn4''\<close>
  by (simp add: js_def base64url_nopad_def base64url_chars_def)

subsection \<open>Decoding inverts encoding\<close>











lemma unat_unit: "n < 65536 \<Longrightarrow> unat (of_nat n :: 16 word) = n"
  by (simp add: unat_of_nat)
















lemma parse_copy:
  "c \<noteq> 0x22 \<Longrightarrow> c \<noteq> 0x5C \<Longrightarrow> \<not> c < 0x20 \<Longrightarrow>
   parse_string_body (c # rest) = map_option (apfst (Cons c)) (parse_string_body rest)"
  by simp





















subsection \<open>The signed URL\<close>

lemma generateSignedURL_eq:
  "generateSignedURL RSA_SHA1_sign this now url expiresIn_arg =
     (case RSA_SHA1_sign (privateKey this)
             (utf8 (policyString url
                (now div 1000 + (case expiresIn_arg of None \<Rightarrow> 3600 | Some n \<Rightarrow> n)))) of
        None \<Rightarrow> Inl CryptoError
      | Some raw \<Rightarrow>
          Inr (url
               @ js ''?Policy=''
               @ base64url_nopad (utf8 (policyString url
                   (now div 1000 + (case expiresIn_arg of None \<Rightarrow> 3600 | Some n \<Rightarrow> n))))
               @ js ''&Signature='' @ base64url_nopad raw
               @ js ''&Key-Pair-Id='' @ publicKeyId this))"
  by (simp add: generateSignedURL_def Let_def url_safe_base64 split: option.split)

lemma generateSignedURL_signedURL:
  "generateSignedURL RSA_SHA1_sign this now url expiresIn_arg =
     (case RSA_SHA1_sign (privateKey this)
             (utf8 (policyString url
                (now div 1000 + (case expiresIn_arg of None \<Rightarrow> 3600 | Some n \<Rightarrow> n)))) of
        None \<Rightarrow> Inl CryptoError
      | Some raw \<Rightarrow>
          Inr (signedURL url
                (base64url_nopad (utf8 (policyString url
                   (now div 1000 + (case expiresIn_arg of None \<Rightarrow> 3600 | Some n \<Rightarrow> n)))),
                 base64url_nopad raw, publicKeyId this)))"
  by (simp add: generateSignedURL_eq signedURL_def split: option.split)

lemma example_signature_negative:
  "checksum_sign (privateKey signer)
     (utf8 (policyString (js ''https://d123456789.cloudfront.net/app.html'')
        (1730000000000 div 1000 + (- 5)))) = Some [0xE1, 0xCC]"
  by (simp add: example_policy_negative checksum_sign_def signer_def) (simp add: js_def)


text \<open>
  Claim C6: the signed URL is the resource URL followed by the query parameters
  \<^verbatim>\<open>Policy\<close>, the unpadded URL-safe Base64 of the UTF-8 bytes of the policy document,
  \<^verbatim>\<open>Signature\<close>, the unpadded URL-safe Base64 of the signature over those bytes, and
  \<^verbatim>\<open>Key-Pair-Id\<close>, the key identifier of the generator. The expiry is
  \<^verbatim>\<open>Math.floor(Date.now() / 1000)\<close> plus the lifetime, 3600 by default.
\<close>

theorem wire_form:
  "generateSignedURL RSA_SHA1_sign this now url expiresIn_arg =
     (case RSA_SHA1_sign (privateKey this)
             (utf8 (policyString url
                (now div 1000 + (case expiresIn_arg of None \<Rightarrow> 3600 | Some n \<Rightarrow> n)))) of
        None \<Rightarrow> Inl CryptoError
      | Some raw \<Rightarrow>
          Inr (url
               @ js ''?Policy=''
               @ base64url_nopad (utf8 (policyString url
                   (now div 1000 + (case expiresIn_arg of None \<Rightarrow> 3600 | Some n \<Rightarrow> n))))
               @ js ''&Signature='' @ base64url_nopad raw
               @ js ''&Key-Pair-Id='' @ publicKeyId this))"
  by (rule generateSignedURL_eq)

theorem wire_form_witness:
  \<open>generateSignedURL checksum_sign signer 1730000000000
      (js ''https://d123456789.cloudfront.net/app.html'') None =
    Inr (js ''https://d123456789.cloudfront.net/app.html?Policy=eyJTdGF0ZW1lbnQiOlt7IlJlc291cmNlIjoiaHR0cHM6Ly9kMTIzNDU2Nzg5LmNsb3VkZnJvbnQubmV0L2FwcC5odG1sIiwiQ29uZGl0aW9uIjp7IkRhdGVMZXNzVGhhbiI6eyJBV1M6RXBvY2hUaW1lIjoxNzMwMDAzNjAwfX19XX0&Signature=4Zs&Key-Pair-Id=K2EXAMPLE123456'')\<close>
  using wire_form [of checksum_sign signer 1730000000000
      "js ''https://d123456789.cloudfront.net/app.html''" None]
  by (simp add: example_policy_3600 checksum_sign_def signer_def)
     (simp add: js_def base64url_nopad_def base64url_chars_def)

text \<open>
  Claim C5 says that issuing fails with \<open>InvalidTTL\<close> when the lifetime is not positive.
  The source does not check the lifetime: with the lifetime 0 it returns a signed URL
  whose policy expires at the second of issue.
\<close>

theorem ttl_zero_counterexample:
  \<open>generateSignedURL checksum_sign signer 1730000000000
      (js ''https://d123456789.cloudfront.net/app.html'') (Some 0) =
    Inr (js ''https://d123456789.cloudfront.net/app.html?Policy=eyJTdGF0ZW1lbnQiOlt7IlJlc291cmNlIjoiaHR0cHM6Ly9kMTIzNDU2Nzg5LmNsb3VkZnJvbnQubmV0L2FwcC5odG1sIiwiQ29uZGl0aW9uIjp7IkRhdGVMZXNzVGhhbiI6eyJBV1M6RXBvY2hUaW1lIjoxNzMwMDAwMDAwfX19XX0&Signature=4ZI&Key-Pair-Id=K2EXAMPLE123456'')\<close>
  by (simp add: generateSignedURL_eq example_policy_0 checksum_sign_def signer_def)
     (simp add: js_def base64url_nopad_def base64url_chars_def)

lemma example_token_negative:
  \<open>base64url_nopad (utf8 (policyString (js ''https://d123456789.cloudfront.net/app.html'')
      (1730000000000 div 1000 + (- 5)))) =
    js ''eyJTdGF0ZW1lbnQiOlt7IlJlc291cmNlIjoiaHR0cHM6Ly9kMTIzNDU2Nzg5LmNsb3VkZnJvbnQubmV0L2FwcC5odG1sIiwiQ29uZGl0aW9uIjp7IkRhdGVMZXNzVGhhbiI6eyJBV1M6RXBvY2hUaW1lIjoxNzI5OTk5OTk1fX19XX0''
   \<and> base64url_nopad [0xE1, 0xCC] = js ''4cw''\<close>
  by (simp add: example_policy_negative)
     (simp add: js_def base64url_nopad_def base64url_chars_def)

text \<open>
  Claim C5, amended: for every lifetime, positive or not, with which the expiry is exact,
  issuing does not fail with \<open>InvalidTTL\<close>; where signing succeeds it returns the signed
  URL whose policy document carries the expiry \<^verbatim>\<open>Math.floor(Date.now() / 1000)\<close> plus the
  lifetime.
\<close>

theorem no_ttl_validation:
  assumes "exact_expiry now ttl"
  shows \<open>generateSignedURL RSA_SHA1_sign this now url (Some ttl) \<noteq> Inl InvalidTTL
    \<and> (RSA_SHA1_sign (privateKey this) (utf8 (policyString url (now div 1000 + ttl))) = Some raw \<longrightarrow>
         generateSignedURL RSA_SHA1_sign this now url (Some ttl) =
           Inr (signedURL url
             (base64url_nopad (utf8 (policyString url (now div 1000 + ttl))),
              base64url_nopad raw, publicKeyId this)))
    \<and> policyString url (now div 1000 + ttl) =
         js ''{"Statement":[{"Resource":"'' @ remove_whitespace (quote_units url)
           @ js ''","Condition":{"DateLessThan":{"AWS:EpochTime":''
           @ Number_toString (now div 1000 + ttl) @ js ''}}}]}''\<close>
proof -
  have a: "generateSignedURL RSA_SHA1_sign this now url (Some ttl) \<noteq> Inl InvalidTTL"
    by (simp add: generateSignedURL_signedURL split: option.split)
  have b: "RSA_SHA1_sign (privateKey this) (utf8 (policyString url (now div 1000 + ttl))) = Some raw \<longrightarrow>
         generateSignedURL RSA_SHA1_sign this now url (Some ttl) =
           Inr (signedURL url
             (base64url_nopad (utf8 (policyString url (now div 1000 + ttl))),
              base64url_nopad raw, publicKeyId this))"
    by (simp add: generateSignedURL_signedURL)
  from a b policyString_general [of url "now div 1000 + ttl"] show ?thesis
    by (intro conjI)
qed

theorem no_ttl_validation_witness:
  \<open>exact_expiry 1730000000000 (- 5)
   \<and> generateSignedURL checksum_sign signer 1730000000000
       (js ''https://d123456789.cloudfront.net/app.html'') (Some (- 5)) \<noteq> Inl InvalidTTL
   \<and> generateSignedURL checksum_sign signer 1730000000000
       (js ''https://d123456789.cloudfront.net/app.html'') (Some (- 5)) =
      Inr (signedURL (js ''https://d123456789.cloudfront.net/app.html'')
        (js ''eyJTdGF0ZW1lbnQiOlt7IlJlc291cmNlIjoiaHR0cHM6Ly9kMTIzNDU2Nzg5LmNsb3VkZnJvbnQubmV0L2FwcC5odG1sIiwiQ29uZGl0aW9uIjp7IkRhdGVMZXNzVGhhbiI6eyJBV1M6RXBvY2hUaW1lIjoxNzI5OTk5OTk1fX19XX0'',
         js ''4cw'', js ''K2EXAMPLE123456''))\<close>
proof -
  have x: "exact_expiry 1730000000000 (- 5)"
    by (simp add: exact_expiry_def safe_integer_def)
  have k: "publicKeyId signer = js ''K2EXAMPLE123456''"
    by (simp add: signer_def)
  note r = no_ttl_validation [where RSA_SHA1_sign = checksum_sign and this = signer
      and url = "js ''https://d123456789.cloudfront.net/app.html''" and raw = "[0xE1, 0xCC]",
      OF x]
  from r have a: "generateSignedURL checksum_sign signer 1730000000000
       (js ''https://d123456789.cloudfront.net/app.html'') (Some (- 5)) \<noteq> Inl InvalidTTL"
    by (rule conjunct1)
  from r example_signature_negative
  have b: "generateSignedURL checksum_sign signer 1730000000000
       (js ''https://d123456789.cloudfront.net/app.html'') (Some (- 5)) =
      Inr (signedURL (js ''https://d123456789.cloudfront.net/app.html'')
        (base64url_nopad (utf8 (policyString (js ''https://d123456789.cloudfront.net/app.html'')
            (1730000000000 div 1000 + (- 5)))),
         base64url_nopad [0xE1, 0xCC], publicKeyId signer))"
    by blast
  from x a b show ?thesis
    using example_token_negative by (simp only: k simp_thms)
qed

subsection \<open>Verification of an issued token\<close>












end
